theory Spec2Isabelle
  imports Main
begin

section \<open>The data model of package s3gof3r\<close>

text \<open>
  The structs of the source are records. A Go pointer is an address or nil
  (\<open>None\<close>); the objects it can point to live in a heap, a list per struct type in
  which the address is the index. Only \<open>Config\<close> objects are written through a
  pointer in the source; \<open>S3\<close> objects are allocated by \<open>New\<close> and read through
  the pointer a bucket holds.
\<close>

type_synonym addr = nat

record Keys =
  AccessKey :: string
  SecretKey :: string

record S3 =
  Domain :: string
  Keys :: Keys

text \<open>
  \<open>Bucket\<close> embeds a pointer to its account: field \<open>S3\<close> holds the address of
  the \<open>S3\<close> object, so that \<open>b.S3.Domain\<close> reads the account's domain.
\<close>

record Bucket =
  S3 :: "addr option"
  Name :: string

text \<open>
  Modelled from the spec: \<open>http.Client\<close> and the function \<open>ClientWithTimeout\<close> are
  not in the source file. The spec describes the HTTP transport as "a client with
  configurable timeout"; a client is represented by that timeout, a
  \<open>time.Duration\<close> in nanoseconds.
\<close>

record http_Client =
  Timeout :: int

definition ClientWithTimeout :: "int \<Rightarrow> http_Client" where
  "ClientWithTimeout timeout = \<lparr>Timeout = timeout\<rparr>"

record Config =
  Client :: "http_Client option"
  Concurrency :: int
  PartSize :: int
  NTry :: int
  Md5Check :: bool
  Scheme :: string

text \<open>
  The heap also holds the package variable \<open>DefaultDomain\<close>, a string that
  \<open>New\<close> reads when it is called and that a client program can assign.
\<close>

record heap =
  configs :: "Config list"
  accounts :: "S3 list"
  DefaultDomain :: string

text \<open>
  Modelled from the spec: the constant \<open>mb\<close> is not in the source file. The spec
  gives the default part size, \<open>20 * mb\<close> in the source, as 20 MiB.
\<close>

definition mb :: int where
  "mb = 2 ^ 20"

text \<open>\<open>time.Second\<close> of Go's standard library, in nanoseconds.\<close>

definition Second :: int where
  "Second = 1000000000"

definition clientTimeout :: int where
  "clientTimeout = 5 * Second"

text \<open>
  \<open>var DefaultConfig = &Config{...}\<close>: the variable holds the address of one
  \<open>Config\<close> object allocated when the package is initialised. No code of the
  package assigns the variable, so the address is a constant; the object itself is
  in the heap, where it can be written. \<open>DefaultConfig_value\<close> is the composite
  literal (an omitted field is the zero value, here the nil \<open>Client\<close>), and
  \<open>heap_init\<close> is the heap after package initialisation, in which
  \<open>var DefaultDomain = "s3.amazonaws.com"\<close> has its initial value.
\<close>

definition DefaultConfig :: "addr option" where
  "DefaultConfig = Some 0"

definition DefaultConfig_value :: Config where
  "DefaultConfig_value =
     \<lparr>Client = None,
      Concurrency = 10,
      PartSize = 20 * mb,
      NTry = 10,
      Md5Check = True,
      Scheme = ''https''\<rparr>"

definition heap_init :: heap where
  "heap_init =
     \<lparr>configs = [DefaultConfig_value], accounts = [], DefaultDomain = ''s3.amazonaws.com''\<rparr>"

section \<open>Panics and pointer dereference\<close>

text \<open>
  A Go panic is a value of the result: \<open>NilDereference\<close> is the runtime panic of
  reading through a nil pointer, \<open>PanicError err\<close> is \<open>panic(err)\<close>. Go has no
  dangling pointers; an address outside the heap is treated like nil.
\<close>

datatype 'e panic = NilDereference | PanicError 'e

definition load_Config :: "addr option \<Rightarrow> heap \<Rightarrow> 'e panic + Config" where
  "load_Config c h =
     (case c of
        None \<Rightarrow> Inl NilDereference
      | Some a \<Rightarrow> if a < length (configs h) then Inr (configs h ! a) else Inl NilDereference)"

definition load_S3 :: "addr option \<Rightarrow> heap \<Rightarrow> 'e panic + S3" where
  "load_S3 s h =
     (case s of
        None \<Rightarrow> Inl NilDereference
      | Some a \<Rightarrow> if a < length (accounts h) then Inr (accounts h ! a) else Inl NilDereference)"

section \<open>Accounts and buckets\<close>

text \<open>
  \<open>New\<close> returns the address of a newly allocated \<open>S3\<close> object: the heap grows
  by one account and the new address is its index. An empty \<open>domain\<close> is replaced
  by what the variable \<open>DefaultDomain\<close> holds at the call.
\<close>

definition New :: "string \<Rightarrow> Keys \<Rightarrow> heap \<Rightarrow> addr option \<times> heap" where
  "New domain keys h =
     (let domain = (if domain = '''' then DefaultDomain h else domain)
      in (Some (length (accounts h)),
          h\<lparr>accounts := accounts h @ [\<lparr>Domain = domain, Keys = keys\<rparr>]\<rparr>))"

text \<open>
  \<open>(s3 *S3) Bucket(name)\<close> builds \<open>&Bucket{s3, name}\<close>. The receiver is stored,
  not read, so it may be nil. The new \<open>Bucket\<close> object is never written by the
  package and is modelled by its value.
\<close>

definition S3_Bucket :: "addr option \<Rightarrow> string \<Rightarrow> heap \<Rightarrow> Bucket \<times> heap" where
  "S3_Bucket s3 name h = (\<lparr>S3 = s3, Name = name\<rparr>, h)"

section \<open>URLs\<close>

text \<open>
  \<open>url.Parse\<close> belongs to Go's standard library, not to the package: it is a
  parameter \<open>url_Parse\<close> of every function that reaches it, returning an error
  (\<open>Inl\<close>) or the parsed URL. \<open>fmt.Sprintf\<close> with the format
  \<open>"%s://%s.%s/%s"\<close> is the concatenation of its four string arguments with the
  separators. The arguments are evaluated from left to right, so \<open>c\<close> is read
  before \<open>b.S3\<close>.
\<close>

definition Url :: "(string \<Rightarrow> 'e + 'u) \<Rightarrow> Bucket \<Rightarrow> string \<Rightarrow> addr option \<Rightarrow> heap \<Rightarrow> 'e panic + 'u" where
  "Url url_Parse b path c h =
     (case load_Config c h of
        Inl p \<Rightarrow> Inl p
      | Inr cfg \<Rightarrow>
          (case load_S3 (S3 b) h of
             Inl p \<Rightarrow> Inl p
           | Inr s3 \<Rightarrow>
               (case url_Parse (Scheme cfg @ ''://'' @ Name b @ ''.'' @ Domain s3 @ ''/'' @ path) of
                  Inl err \<Rightarrow> Inl (PanicError err)
                | Inr url \<Rightarrow> Inr url)))"

section \<open>Transfers\<close>

text \<open>\<open>http.Header\<close> is a map from header names to lists of values.\<close>

type_synonym Header = "string \<rightharpoonup> string list"

text \<open>
  Modelled from the spec: \<open>newGetter\<close> and \<open>newPutter\<close> are not in the source
  file. By the spec a transfer session is "created on GetReader/PutWriter call",
  its configuration is a "snapshot captured at transfer start", "a transfer never
  mutates its config after start", and the upload entry point "accepts
  caller-supplied headers to attach to the created object". The created transfer
  is represented by the arguments it was created from, and creating it leaves the
  heap as it is.
\<close>

datatype 'u transfer =
  Getter 'u "addr option" Bucket
| Putter 'u Header "addr option" Bucket

definition newGetter :: "'u \<Rightarrow> addr option \<Rightarrow> Bucket \<Rightarrow> heap \<Rightarrow> ('e panic + 'u transfer) \<times> heap" where
  "newGetter getURL c b h = (Inr (Getter getURL c b), h)"

definition newPutter :: "'u \<Rightarrow> Header \<Rightarrow> addr option \<Rightarrow> Bucket \<Rightarrow> heap \<Rightarrow> ('e panic + 'u transfer) \<times> heap" where
  "newPutter putURL hdr c b h = (Inr (Putter putURL hdr c b), h)"

text \<open>
  Modelled from the spec: the HTTP requests of an upload are made by code that is
  not in the source file. By the spec the writer will "on open: initiate a
  multipart upload", a request is built from "method, url, headers", and the
  caller's headers are "to attach to the created object"; the comment of
  \<open>PutWriter\<close> says "Each header in h is added to the HTTP request header". A
  request is represented by its URL and its header. \<open>Header_Add\<close> adds the
  values \<open>vs\<close> under the key \<open>k\<close> after the values the header already has
  there, \<open>add_headers\<close> does so for each key of \<open>h\<close>, and
  \<open>initiate_request\<close> is the request with which a writer creates the object:
  to the writer's URL, with each header of the writer's \<open>h\<close> added to an empty
  header. A reader creates no object.
\<close>

record 'u request =
  req_url :: 'u
  req_header :: Header

definition Header_Add :: "string \<Rightarrow> string list \<Rightarrow> Header \<Rightarrow> Header" where
  "Header_Add k vs hdr = hdr(k \<mapsto> (case hdr k of None \<Rightarrow> [] | Some ws \<Rightarrow> ws) @ vs)"

definition add_headers :: "Header \<Rightarrow> Header \<Rightarrow> Header" where
  "add_headers h hdr = (\<lambda>k. case h k of None \<Rightarrow> hdr k | Some vs \<Rightarrow> Header_Add k vs hdr k)"

definition initiate_request :: "'u transfer \<Rightarrow> 'u request option" where
  "initiate_request t =
     (case t of
        Getter getURL c b \<Rightarrow> None
      | Putter putURL h c b \<Rightarrow> Some \<lparr>req_url = putURL, req_header = add_headers h Map.empty\<rparr>)"

text \<open>The assignment \<open>c.Client = v\<close> through the pointer \<open>c\<close>.\<close>

definition store_Client :: "addr option \<Rightarrow> http_Client option \<Rightarrow> heap \<Rightarrow> heap" where
  "store_Client c v h =
     (case c of
        None \<Rightarrow> h
      | Some a \<Rightarrow> h\<lparr>configs := (configs h)[a := (configs h ! a)\<lparr>Client := v\<rparr>]\<rparr>)"

text \<open>
  \<open>GetReader\<close> and \<open>PutWriter\<close> return their result together with the heap they
  leave behind, also when they panic: a write made before the panic stays.
\<close>

definition GetReader ::
  "(string \<Rightarrow> 'e + 'u) \<Rightarrow> Bucket \<Rightarrow> string \<Rightarrow> addr option \<Rightarrow> heap \<Rightarrow> ('e panic + 'u transfer) \<times> heap" where
  "GetReader url_Parse b path c h =
     (let c = (if c = None then DefaultConfig else c) in
      case load_Config c h of
        Inl p \<Rightarrow> (Inl p, h)
      | Inr cfg \<Rightarrow>
          let h = (if Client cfg = None
                   then store_Client c (Some (ClientWithTimeout clientTimeout)) h
                   else h) in
          case Url url_Parse b path c h of
            Inl p \<Rightarrow> (Inl p, h)
          | Inr url \<Rightarrow> newGetter url c b h)"

definition PutWriter ::
  "(string \<Rightarrow> 'e + 'u) \<Rightarrow> Bucket \<Rightarrow> string \<Rightarrow> Header \<Rightarrow> addr option \<Rightarrow> heap \<Rightarrow> ('e panic + 'u transfer) \<times> heap" where
  "PutWriter url_Parse b path hdr c h =
     (let c = (if c = None then DefaultConfig else c) in
      case load_Config c h of
        Inl p \<Rightarrow> (Inl p, h)
      | Inr cfg \<Rightarrow>
          let h = (if Client cfg = None
                   then store_Client c (Some (ClientWithTimeout clientTimeout)) h
                   else h) in
          case Url url_Parse b path c h of
            Inl p \<Rightarrow> (Inl p, h)
          | Inr url \<Rightarrow> newPutter url hdr c b h)"

subsection \<open>Sequences of calls\<close>

text \<open>
  A client program's calls of the two entry points, one after the other on the
  same heap. A panicking call is followed by the next one, as in a program that
  recovers.
\<close>

datatype call =
  Call_GetReader Bucket string "addr option"
| Call_PutWriter Bucket string Header "addr option"

fun do_call :: "(string \<Rightarrow> 'e + 'u) \<Rightarrow> call \<Rightarrow> heap \<Rightarrow> heap" where
  "do_call url_Parse (Call_GetReader b path c) h = snd (GetReader url_Parse b path c h)"
| "do_call url_Parse (Call_PutWriter b path hdr c) h = snd (PutWriter url_Parse b path hdr c h)"

fun do_calls :: "(string \<Rightarrow> 'e + 'u) \<Rightarrow> call list \<Rightarrow> heap \<Rightarrow> heap" where
  "do_calls url_Parse [] h = h"
| "do_calls url_Parse (x # xs) h = do_calls url_Parse xs (do_call url_Parse x h)"

subsection \<open>A concrete URL parser and concrete objects\<close>

text \<open>
  To run the model an instance of \<open>url_Parse\<close> is needed. \<open>parse_scheme\<close> follows
  the first step of \<open>url.Parse\<close> in Go's \<open>net/url\<close>, the scan for the scheme
  (\<open>getScheme\<close>): letters are skipped; a digit, \<open>+\<close>, \<open>-\<close> or \<open>.\<close> is
  skipped unless it is the first character, where it ends the scan with no scheme;
  a colon ends the scan, with the error "missing protocol scheme" when it is the
  first character and with the scheme before it otherwise; any other character
  ends the scan with no scheme. The result is the scheme and the rest of the
  string, which is left unparsed.
\<close>

datatype url_error = MissingProtocolScheme

fun getScheme_from :: "string \<Rightarrow> nat \<Rightarrow> string \<Rightarrow> url_error + string \<times> string" where
  "getScheme_from rawURL i [] = Inr ([], rawURL)"
| "getScheme_from rawURL i (c # cs) =
     (let n = (of_char c :: nat) in
      if (97 \<le> n \<and> n \<le> 122) \<or> (65 \<le> n \<and> n \<le> 90) then getScheme_from rawURL (Suc i) cs
      else if (48 \<le> n \<and> n \<le> 57) \<or> c = CHR ''+'' \<or> c = CHR ''-'' \<or> c = CHR ''.'' then
        (if i = 0 then Inr ([], rawURL) else getScheme_from rawURL (Suc i) cs)
      else if c = CHR '':'' then
        (if i = 0 then Inl MissingProtocolScheme else Inr (take i rawURL, drop (Suc i) rawURL))
      else Inr ([], rawURL))"

definition parse_scheme :: "string \<Rightarrow> url_error + string \<times> string" where
  "parse_scheme rawURL = getScheme_from rawURL 0 rawURL"

text \<open>
  A heap as a client program can have built it: the default configuration at
  address 0, a configuration of the caller's with no client and one with a client
  and an empty scheme, and one account made by \<open>New\<close>. \<open>heap_other\<close> is the
  initial heap after a client's assignment \<open>DefaultDomain = "other.example"\<close>.
\<close>

definition user_Config :: Config where
  "user_Config =
     \<lparr>Client = None, Concurrency = 2, PartSize = 5 * mb, NTry = 3, Md5Check = False,
      Scheme = ''http''\<rparr>"

definition noscheme_Config :: Config where
  "noscheme_Config =
     \<lparr>Client = Some \<lparr>Timeout = 0\<rparr>, Concurrency = 1, PartSize = mb, NTry = 1, Md5Check = False,
      Scheme = []\<rparr>"

definition user_Keys :: Keys where
  "user_Keys = \<lparr>AccessKey = ''AK'', SecretKey = ''SK''\<rparr>"

definition heap_user :: heap where
  "heap_user =
     \<lparr>configs = [DefaultConfig_value, user_Config, noscheme_Config],
      accounts = [\<lparr>Domain = ''s3.amazonaws.com'', Keys = user_Keys\<rparr>],
      DefaultDomain = ''s3.amazonaws.com''\<rparr>"

definition heap_other :: heap where
  "heap_other = heap_init\<lparr>DefaultDomain := ''other.example''\<rparr>"

definition bucket_user :: Bucket where
  "bucket_user = \<lparr>S3 = Some 0, Name = ''logs''\<rparr>"

definition header_user :: Header where
  "header_user = [''x-amz-server-side-encryption'' \<mapsto> [''AES256'']]"

section \<open>The download reorder buffer\<close>

text \<open>
  Modelled from the spec: the getter that \<open>newGetter\<close> creates is not in the source
  file. The spec's downloader: "as each part's bytes arrive they are buffered (not
  yet delivered) until the part's index equals the stream's next expected index;
  then all contiguous ready parts starting at that index are delivered to the
  reader's output in order and evicted from the buffer." The state of a download is
  the next expected index, the reorder buffer (part index and bytes of every part
  that has arrived and is not yet delivered) and the bytes delivered to the caller
  so far.
\<close>

record 'b getter =
  next_index :: nat
  buffer :: "(nat \<times> 'b list) list"
  delivered :: "'b list"

text \<open>
  Modelled from the spec: "all contiguous ready parts starting at that index are
  delivered ... in order and evicted from the buffer". The loop ends at the first
  index that has not arrived; each round evicts a part, so it terminates.
\<close>

function deliver_ready :: "'b getter \<Rightarrow> 'b getter" where
  "deliver_ready g =
     (case map_of (buffer g) (next_index g) of
        None \<Rightarrow> g
      | Some bytes \<Rightarrow>
          deliver_ready
            (g\<lparr>delivered := delivered g @ bytes,
               buffer := filter (\<lambda>(i, _). i \<noteq> next_index g) (buffer g),
               next_index := Suc (next_index g)\<rparr>))"
  by pat_completeness auto
termination
proof (relation "measure (\<lambda>g. length (buffer g))")
  show "wf (measure (\<lambda>g. length (buffer g)))"
    by simp
next
  fix g :: "'b getter" and bytes
  assume "map_of (buffer g) (next_index g) = Some bytes"
  then have "(next_index g, bytes) \<in> set (buffer g)"
    by (rule map_of_SomeD)
  then have "length (filter (\<lambda>(i, _). i \<noteq> next_index g) (buffer g)) < length (buffer g)"
    by (rule length_filter_less) simp
  then show "(g\<lparr>delivered := delivered g @ bytes,
               buffer := filter (\<lambda>(i, _). i \<noteq> next_index g) (buffer g),
               next_index := Suc (next_index g)\<rparr>, g) \<in> measure (\<lambda>g. length (buffer g))"
    by simp
qed

declare deliver_ready.simps [simp del]

text \<open>
  Modelled from the spec: the response for part \<open>i\<close> arrives. Its bytes are
  buffered, then whatever is ready is delivered.
\<close>

definition arrive :: "nat \<Rightarrow> 'b list \<Rightarrow> 'b getter \<Rightarrow> 'b getter" where
  "arrive i bytes g = deliver_ready (g\<lparr>buffer := (i, bytes) # buffer g\<rparr>)"

text \<open>
  Modelled from the spec: a download of the parts \<open>parts\<close> (part \<open>i\<close> is
  \<open>parts ! i\<close>) whose responses arrive in the order \<open>order\<close>, a list of part
  indices. The interleaving of the concurrent requests is this order, and
  \<open>download\<close> is what the caller has received when the last response is in.
\<close>

fun arrivals :: "'b list list \<Rightarrow> nat list \<Rightarrow> 'b getter \<Rightarrow> 'b getter" where
  "arrivals parts [] g = g"
| "arrivals parts (i # order) g = arrivals parts order (arrive i (parts ! i) g)"

definition getter_open :: "'b getter" where
  "getter_open = \<lparr>next_index = 0, buffer = [], delivered = []\<rparr>"

definition download :: "'b list list \<Rightarrow> nat list \<Rightarrow> 'b list" where
  "download parts order = delivered (arrivals parts order getter_open)"


text \<open>
  The invariant of a download once the parts with indices in \<open>A\<close> have arrived:
  the next expected index is the least index outside \<open>A\<close>, the buffer holds the
  arrived parts beyond it, and the parts before it have been delivered in order.
\<close>

definition reordered :: "'b list list \<Rightarrow> nat set \<Rightarrow> 'b getter \<Rightarrow> bool" where
  "reordered parts A g \<longleftrightarrow>
     (\<forall>j<next_index g. j \<in> A) \<and> next_index g \<notin> A \<and> A \<subseteq> {..<length parts}
     \<and> map_of (buffer g) = (\<lambda>i. if i \<in> A \<and> next_index g < i then Some (parts ! i) else None)
     \<and> delivered g = concat (take (next_index g) parts)"

section \<open>Properties of the entry points\<close>

subsection \<open>Running the model on concrete objects\<close>

lemmas heap_user_simps =
  heap_user_def bucket_user_def user_Config_def noscheme_Config_def DefaultConfig_value_def
  user_Keys_def

lemmas entry_defs =
  GetReader_def PutWriter_def Url_def newGetter_def newPutter_def store_Client_def
  load_Config_def load_S3_def DefaultConfig_def Let_def

lemma parse_scheme_https:
  "parse_scheme (''https://'' @ rest) = Inr (''https'', ''//'' @ rest)"
  by (simp add: parse_scheme_def)

lemma parse_scheme_http:
  "parse_scheme (''http://'' @ rest) = Inr (''http'', ''//'' @ rest)"
  by (simp add: parse_scheme_def)

lemma parse_scheme_colon:
  "parse_scheme (''://'' @ rest) = Inl MissingProtocolScheme"
  by (simp add: parse_scheme_def)

lemma GetReader_user_nil:
  "GetReader parse_scheme bucket_user ''a/b.txt'' None heap_user =
     (Inr (Getter (''https'', ''//logs.s3.amazonaws.com/a/b.txt'') DefaultConfig bucket_user),
      heap_user\<lparr>configs := [DefaultConfig_value\<lparr>Client := Some \<lparr>Timeout = 5000000000\<rparr>\<rparr>,
                                user_Config, noscheme_Config]\<rparr>)"
  using parse_scheme_https [of "''logs.s3.amazonaws.com/a/b.txt''"]
  by (simp add: entry_defs heap_user_simps ClientWithTimeout_def clientTimeout_def Second_def)

lemma PutWriter_user_nil:
  "PutWriter parse_scheme bucket_user ''a/b.txt'' header_user None heap_user =
     (Inr (Putter (''https'', ''//logs.s3.amazonaws.com/a/b.txt'') header_user DefaultConfig bucket_user),
      heap_user\<lparr>configs := [DefaultConfig_value\<lparr>Client := Some \<lparr>Timeout = 5000000000\<rparr>\<rparr>,
                                user_Config, noscheme_Config]\<rparr>)"
  using parse_scheme_https [of "''logs.s3.amazonaws.com/a/b.txt''"]
  by (simp add: entry_defs heap_user_simps ClientWithTimeout_def clientTimeout_def Second_def)

lemma GetReader_user_1:
  "GetReader parse_scheme bucket_user ''a/b.txt'' (Some 1) heap_user =
     (Inr (Getter (''http'', ''//logs.s3.amazonaws.com/a/b.txt'') (Some 1) bucket_user),
      heap_user\<lparr>configs := [DefaultConfig_value,
                                user_Config\<lparr>Client := Some \<lparr>Timeout = 5000000000\<rparr>\<rparr>,
                                noscheme_Config]\<rparr>)"
  using parse_scheme_http [of "''logs.s3.amazonaws.com/a/b.txt''"]
  by (simp add: entry_defs heap_user_simps ClientWithTimeout_def clientTimeout_def Second_def)

lemma PutWriter_user_1:
  "PutWriter parse_scheme bucket_user ''a/b.txt'' header_user (Some 1) heap_user =
     (Inr (Putter (''http'', ''//logs.s3.amazonaws.com/a/b.txt'') header_user (Some 1) bucket_user),
      heap_user\<lparr>configs := [DefaultConfig_value,
                                user_Config\<lparr>Client := Some \<lparr>Timeout = 5000000000\<rparr>\<rparr>,
                                noscheme_Config]\<rparr>)"
  using parse_scheme_http [of "''logs.s3.amazonaws.com/a/b.txt''"]
  by (simp add: entry_defs heap_user_simps ClientWithTimeout_def clientTimeout_def Second_def)

subsection \<open>What a call writes\<close>

text \<open>
  The only write of \<open>GetReader\<close> and \<open>PutWriter\<close> is the default client, stored
  in the effective configuration when that has no client.
\<close>

lemma load_Config_InrD:
  "load_Config c h = (Inr cfg :: 'e panic + Config) \<Longrightarrow>
     \<exists>a. c = Some a \<and> a < length (configs h) \<and> cfg = configs h ! a"
  by (auto simp add: load_Config_def split: option.splits if_splits)

lemma GetReader_heap:
  "snd (GetReader url_Parse b path c h) =
     (case (if c = None then DefaultConfig else c) of
        None \<Rightarrow> h
      | Some a \<Rightarrow>
          if a < length (configs h) \<and> Client (configs h ! a) = None
          then h\<lparr>configs := (configs h)[a := (configs h ! a)\<lparr>Client := Some (ClientWithTimeout clientTimeout)\<rparr>]\<rparr>
          else h)"
  by (auto simp add: GetReader_def Let_def load_Config_def store_Client_def newGetter_def DefaultConfig_def
      split: sum.splits option.splits)

lemma PutWriter_heap:
  "snd (PutWriter url_Parse b path hdr c h) =
     (case (if c = None then DefaultConfig else c) of
        None \<Rightarrow> h
      | Some a \<Rightarrow>
          if a < length (configs h) \<and> Client (configs h ! a) = None
          then h\<lparr>configs := (configs h)[a := (configs h ! a)\<lparr>Client := Some (ClientWithTimeout clientTimeout)\<rparr>]\<rparr>
          else h)"
  by (auto simp add: PutWriter_def Let_def load_Config_def store_Client_def newPutter_def DefaultConfig_def
      split: sum.splits option.splits)

lemma do_call_heap:
  "do_call url_Parse x h =
     (case (case x of Call_GetReader b path c \<Rightarrow> (if c = None then DefaultConfig else c)
                    | Call_PutWriter b path hdr c \<Rightarrow> (if c = None then DefaultConfig else c)) of
        None \<Rightarrow> h
      | Some a \<Rightarrow>
          if a < length (configs h) \<and> Client (configs h ! a) = None
          then h\<lparr>configs := (configs h)[a := (configs h ! a)\<lparr>Client := Some (ClientWithTimeout clientTimeout)\<rparr>]\<rparr>
          else h)"
  by (cases x) (simp_all add: GetReader_heap PutWriter_heap)

lemma same_Client:
  "\<exists>cl. r = r\<lparr>Client := cl\<rparr> \<and> (cl = Client r \<or> Client r = None \<and> cl = Some D)"
  by (rule exI [of _ "Client r"]) simp

lemma install_Config:
  assumes "k < length (configs h)"
  shows "k < length (configs (if a < length (configs h) \<and> Client (configs h ! a) = None
            then h\<lparr>configs := (configs h)[a := (configs h ! a)\<lparr>Client := Some D\<rparr>]\<rparr> else h))
         \<and> configs (if a < length (configs h) \<and> Client (configs h ! a) = None
            then h\<lparr>configs := (configs h)[a := (configs h ! a)\<lparr>Client := Some D\<rparr>]\<rparr> else h) ! k
           = (configs h ! k)\<lparr>Client := (if a = k \<and> Client (configs h ! k) = None then Some D
                                          else Client (configs h ! k))\<rparr>"
  using assms by (simp add: nth_list_update)

lemma do_call_Config:
  assumes "k < length (configs h)"
  shows "k < length (configs (do_call url_Parse x h))
         \<and> (\<exists>cl. configs (do_call url_Parse x h) ! k = (configs h ! k)\<lparr>Client := cl\<rparr>
              \<and> (cl = Client (configs h ! k)
                  \<or> Client (configs h ! k) = None \<and> cl = Some (ClientWithTimeout clientTimeout)))"
proof (cases "case x of Call_GetReader b path c \<Rightarrow> (if c = None then DefaultConfig else c)
                    | Call_PutWriter b path hdr c \<Rightarrow> (if c = None then DefaultConfig else c)")
  case None
  then have "do_call url_Parse x h = h"
    by (simp add: do_call_heap)
  with assms show ?thesis
    by (simp add: same_Client)
next
  case (Some a)
  then have "do_call url_Parse x h =
      (if a < length (configs h) \<and> Client (configs h ! a) = None
       then h\<lparr>configs := (configs h)[a := (configs h ! a)\<lparr>Client := Some (ClientWithTimeout clientTimeout)\<rparr>]\<rparr>
       else h)"
    by (simp add: do_call_heap)
  with install_Config [OF assms, of a "ClientWithTimeout clientTimeout"]
  have "k < length (configs (do_call url_Parse x h))"
    and "configs (do_call url_Parse x h) ! k
          = (configs h ! k)\<lparr>Client := (if a = k \<and> Client (configs h ! k) = None
                                         then Some (ClientWithTimeout clientTimeout)
                                         else Client (configs h ! k))\<rparr>"
    by simp_all
  then show ?thesis
    by (cases "a = k \<and> Client (configs h ! k) = None") (auto simp add: same_Client)
qed

lemma do_calls_Config:
  "k < length (configs h) \<Longrightarrow>
     k < length (configs (do_calls url_Parse xs h))
     \<and> (\<exists>cl. configs (do_calls url_Parse xs h) ! k = (configs h ! k)\<lparr>Client := cl\<rparr>
          \<and> (cl = Client (configs h ! k)
              \<or> Client (configs h ! k) = None \<and> cl = Some (ClientWithTimeout clientTimeout)))"
proof (induction xs arbitrary: h)
  case Nil
  then show ?case
    by (simp add: same_Client)
next
  case (Cons x xs)
  let ?h = "do_call url_Parse x h"
  from do_call_Config [OF Cons.prems, of url_Parse x] obtain cl where
    k: "k < length (configs ?h)" and
    c: "configs ?h ! k = (configs h ! k)\<lparr>Client := cl\<rparr>" and
    d: "cl = Client (configs h ! k) \<or> Client (configs h ! k) = None \<and> cl = Some (ClientWithTimeout clientTimeout)"
    by blast
  from Cons.IH [OF k] obtain cl' where
    k': "k < length (configs (do_calls url_Parse xs ?h))" and
    c': "configs (do_calls url_Parse xs ?h) ! k = (configs ?h ! k)\<lparr>Client := cl'\<rparr>" and
    d': "cl' = Client (configs ?h ! k) \<or> Client (configs ?h ! k) = None \<and> cl' = Some (ClientWithTimeout clientTimeout)"
    by blast
  have "configs (do_calls url_Parse (x # xs) h) ! k = (configs h ! k)\<lparr>Client := cl'\<rparr>"
    using c c' by simp
  moreover have "cl' = Client (configs h ! k)
      \<or> Client (configs h ! k) = None \<and> cl' = Some (ClientWithTimeout clientTimeout)"
    using c d d' by auto
  ultimately show ?case using k' by auto
qed

text \<open>
  Storing a client changes neither the scheme of a configuration nor an account,
  so \<open>Url\<close> returns the same before and after; and no call assigns
  \<open>DefaultDomain\<close>.
\<close>

lemma Url_after_store:
  "Url url_Parse b path c (store_Client c v h) = Url url_Parse b path c h"
  by (cases c)
     (auto simp add: Url_def store_Client_def load_Config_def load_S3_def nth_list_update
        split: option.splits sum.splits)

lemma PutWriter_result:
  fixes url_Parse :: "string \<Rightarrow> 'e + 'u"
  shows "fst (PutWriter url_Parse b path hdr c h)
     = (case Url url_Parse b path (if c = None then DefaultConfig else c) h of
          Inl p \<Rightarrow> Inl p
        | Inr url \<Rightarrow> Inr (Putter url hdr (if c = None then DefaultConfig else c) b))"
proof (cases "load_Config (if c = None then DefaultConfig else c) h :: 'e panic + Config")
  case (Inl p)
  then show ?thesis
    by (simp add: PutWriter_def Let_def Url_def)
next
  case (Inr cfg)
  then show ?thesis
    by (simp add: PutWriter_def Let_def Url_after_store newPutter_def split: sum.splits)
qed

lemma do_call_DefaultDomain:
  "DefaultDomain (do_call url_Parse x h) = DefaultDomain h"
  by (simp add: do_call_heap split: option.splits)

lemma do_calls_DefaultDomain:
  "DefaultDomain (do_calls url_Parse xs h) = DefaultDomain h"
  by (induction xs arbitrary: h) (simp_all add: do_call_DefaultDomain)

subsection \<open>The claims about the entry points\<close>

text \<open>
  C1, as stated: \<open>GetReader(path, c)\<close> and \<open>PutWriter(path, h, c)\<close> leave every
  field of a non-nil \<open>c\<close> unchanged, in particular its \<open>http.Client\<close>. This
  fails: called with the caller's configuration at address 1, whose \<open>Client\<close> is
  nil, both write a client into it.
\<close>

theorem GetReader_writes_nil_Client_counterexample:
  "Client (configs heap_user ! 1) = None
   \<and> Client (configs (snd (GetReader parse_scheme bucket_user ''a/b.txt'' (Some 1) heap_user)) ! 1)
       = Some \<lparr>Timeout = 5000000000\<rparr>
   \<and> Client (configs (snd (PutWriter parse_scheme bucket_user ''a/b.txt'' header_user (Some 1) heap_user)) ! 1)
       = Some \<lparr>Timeout = 5000000000\<rparr>"
  unfolding GetReader_user_1 PutWriter_user_1
  by (simp add: heap_user_def user_Config_def)

text \<open>
  C1, amended: for a non-nil \<open>c\<close>, \<open>GetReader\<close> and \<open>PutWriter\<close> leave
  \<open>Concurrency\<close>, \<open>PartSize\<close>, \<open>NTry\<close>, \<open>Md5Check\<close> and \<open>Scheme\<close> of
  \<open>c\<close> unchanged, and its \<open>Client\<close> too when that is not nil; a nil \<open>Client\<close>
  is overwritten with \<open>ClientWithTimeout(clientTimeout)\<close>.
\<close>

theorem Config_unchanged_except_nil_Client:
  assumes "load_Config (Some a) h = (Inr cfg :: 'e panic + Config)"
  shows "(load_Config (Some a) (snd (GetReader url_Parse b path (Some a) h)) :: 'e panic + Config)
           = Inr (cfg\<lparr>Client := (if Client cfg = None then Some (ClientWithTimeout clientTimeout)
                                   else Client cfg)\<rparr>)
         \<and> (load_Config (Some a) (snd (PutWriter url_Parse b path hdr (Some a) h)) :: 'e panic + Config)
           = Inr (cfg\<lparr>Client := (if Client cfg = None then Some (ClientWithTimeout clientTimeout)
                                   else Client cfg)\<rparr>)"
proof -
  from load_Config_InrD [OF assms] have a: "a < length (configs h)" "cfg = configs h ! a"
    by auto
  show ?thesis
    by (simp add: a GetReader_heap PutWriter_heap load_Config_def)
qed

text \<open>
  C1, at concrete inputs: a configuration with a client is left as it is by
  \<open>GetReader\<close>, and one without gets the default client from \<open>PutWriter\<close>.
\<close>

theorem Config_unchanged_except_nil_Client_witness:
  "(load_Config (Some 2) heap_user :: url_error panic + Config) = Inr noscheme_Config
   \<and> (load_Config (Some 2) (snd (GetReader parse_scheme bucket_user ''a/b.txt'' (Some 2) heap_user))
        :: url_error panic + Config) = Inr noscheme_Config
   \<and> (load_Config (Some 1) heap_user :: url_error panic + Config) = Inr user_Config
   \<and> (load_Config (Some 1) (snd (PutWriter parse_scheme bucket_user ''a/b.txt'' header_user (Some 1) heap_user))
        :: url_error panic + Config)
       = Inr \<lparr>Client = Some \<lparr>Timeout = 5000000000\<rparr>, Concurrency = 2, PartSize = 5 * mb, NTry = 3,
              Md5Check = False, Scheme = ''http''\<rparr>"
proof -
  have c2: "(load_Config (Some 2) heap_user :: url_error panic + Config) = Inr noscheme_Config"
    and c1: "(load_Config (Some 1) heap_user :: url_error panic + Config) = Inr user_Config"
    by (simp_all add: load_Config_def heap_user_def)
  show ?thesis
    using c2 c1
      Config_unchanged_except_nil_Client [OF c2, of parse_scheme bucket_user "''a/b.txt''" header_user]
      Config_unchanged_except_nil_Client [OF c1, of parse_scheme bucket_user "''a/b.txt''" header_user]
    by (simp add: noscheme_Config_def user_Config_def ClientWithTimeout_def clientTimeout_def Second_def)
qed

text \<open>
  C2, as stated: after every sequence of \<open>GetReader\<close> and \<open>PutWriter\<close> calls the
  contents of \<open>DefaultConfig\<close> equal its initial contents. This fails: one
  \<open>GetReader\<close> call with a nil \<open>Config\<close> writes the default client into the
  shared \<open>DefaultConfig\<close> object.
\<close>

theorem DefaultConfig_changed_by_nil_call_counterexample:
  "configs heap_user ! 0 = DefaultConfig_value
   \<and> configs (do_calls parse_scheme [Call_GetReader bucket_user ''a/b.txt'' None] heap_user) ! 0
       = DefaultConfig_value\<lparr>Client := Some \<lparr>Timeout = 5000000000\<rparr>\<rparr>
   \<and> DefaultConfig_value\<lparr>Client := Some \<lparr>Timeout = 5000000000\<rparr>\<rparr> \<noteq> DefaultConfig_value"
  by (simp add: GetReader_user_nil) (simp add: heap_user_def DefaultConfig_value_def)

text \<open>
  C2, amended: every sequence of \<open>GetReader\<close> and \<open>PutWriter\<close> calls, with nil
  or non-nil \<open>Config\<close> arguments, leaves \<open>Concurrency\<close>, \<open>PartSize\<close>, \<open>NTry\<close>,
  \<open>Md5Check\<close> and \<open>Scheme\<close> of the \<open>DefaultConfig\<close> object as they were; its
  \<open>Client\<close> is as it was, or it was nil and is now the default client.
\<close>

theorem DefaultConfig_preserved_except_Client:
  assumes "load_Config DefaultConfig h = (Inr d :: 'e panic + Config)"
  shows "\<exists>cl. (load_Config DefaultConfig (do_calls url_Parse calls h) :: 'e panic + Config)
                 = Inr (d\<lparr>Client := cl\<rparr>)
              \<and> (cl = Client d \<or> Client d = None \<and> cl = Some (ClientWithTimeout clientTimeout))"
proof -
  from load_Config_InrD [OF assms] have a: "0 < length (configs h)" "d = configs h ! 0"
    by (auto simp add: DefaultConfig_def)
  from do_calls_Config [OF a(1), of url_Parse calls] show ?thesis
    by (auto simp add: a load_Config_def DefaultConfig_def)
qed

text \<open>
  C2, at concrete inputs: three calls on a heap whose \<open>DefaultConfig\<close> object
  still has its initial contents.
\<close>

theorem DefaultConfig_preserved_except_Client_witness:
  "(load_Config DefaultConfig heap_user :: url_error panic + Config) = Inr DefaultConfig_value
   \<and> (load_Config DefaultConfig
         (do_calls parse_scheme
            [Call_PutWriter bucket_user ''a/b.txt'' header_user (Some 1),
             Call_GetReader bucket_user ''a/b.txt'' None,
             Call_GetReader bucket_user ''a/b.txt'' (Some 2)] heap_user) :: url_error panic + Config)
       = Inr (DefaultConfig_value\<lparr>Client := Some (ClientWithTimeout clientTimeout)\<rparr>)
   \<and> (\<exists>cl. (load_Config DefaultConfig
              (do_calls parse_scheme
                 [Call_PutWriter bucket_user ''a/b.txt'' header_user (Some 1),
                  Call_GetReader bucket_user ''a/b.txt'' None,
                  Call_GetReader bucket_user ''a/b.txt'' (Some 2)] heap_user) :: url_error panic + Config)
              = Inr (DefaultConfig_value\<lparr>Client := cl\<rparr>)
            \<and> (cl = Client DefaultConfig_value
                \<or> Client DefaultConfig_value = None \<and> cl = Some (ClientWithTimeout clientTimeout)))"
proof -
  have l: "(load_Config DefaultConfig heap_user :: url_error panic + Config) = Inr DefaultConfig_value"
    by (simp add: load_Config_def DefaultConfig_def heap_user_def)
  have r: "(load_Config DefaultConfig
         (do_calls parse_scheme
            [Call_PutWriter bucket_user ''a/b.txt'' header_user (Some 1),
             Call_GetReader bucket_user ''a/b.txt'' None,
             Call_GetReader bucket_user ''a/b.txt'' (Some 2)] heap_user) :: url_error panic + Config)
       = Inr (DefaultConfig_value\<lparr>Client := Some (ClientWithTimeout clientTimeout)\<rparr>)"
    by (simp add: do_call_heap load_Config_def DefaultConfig_def heap_user_def user_Config_def
        noscheme_Config_def DefaultConfig_value_def)
  show ?thesis
    using l r DefaultConfig_preserved_except_Client [OF l, of parse_scheme]
    by blast
qed

text \<open>
  C3: the default configuration has the documented defaults: \<open>Concurrency\<close> 10,
  \<open>PartSize\<close> 20 MiB (20 * 2^20 bytes), \<open>NTry\<close> 10, \<open>Md5Check\<close> true and
  \<open>Scheme\<close> "https". In the heap after package initialisation \<open>DefaultConfig\<close>
  points to an object with these values.
\<close>

theorem DefaultConfig_documented_defaults:
  "load_Config DefaultConfig heap_init = (Inr DefaultConfig_value :: 'e panic + Config)
   \<and> Concurrency DefaultConfig_value = 10
   \<and> PartSize DefaultConfig_value = 20 * 2 ^ 20
   \<and> PartSize DefaultConfig_value = 20971520
   \<and> NTry DefaultConfig_value = 10
   \<and> Md5Check DefaultConfig_value = True
   \<and> Scheme DefaultConfig_value = ''https''"
  by (simp add: load_Config_def DefaultConfig_def heap_init_def DefaultConfig_value_def mb_def)

text \<open>
  C4: \<open>GetReader(path, nil)\<close> and \<open>PutWriter(path, h, nil)\<close> behave exactly as
  the same call with \<open>DefaultConfig\<close>: same result and same heap; the transfer is
  created with the pointer \<open>DefaultConfig\<close> in place of nil.
\<close>

theorem nil_Config_is_DefaultConfig:
  "GetReader url_Parse b path None h = GetReader url_Parse b path DefaultConfig h
   \<and> PutWriter url_Parse b path hdr None h = PutWriter url_Parse b path hdr DefaultConfig h
   \<and> (\<forall>url c' b'. fst (GetReader url_Parse b path None h) = Inr (Getter url c' b') \<longrightarrow> c' = DefaultConfig)
   \<and> (\<forall>url hdr' c' b'. fst (PutWriter url_Parse b path hdr None h) = Inr (Putter url hdr' c' b')
         \<longrightarrow> c' = DefaultConfig)"
  by (auto simp add: GetReader_def PutWriter_def DefaultConfig_def Let_def newGetter_def newPutter_def
      split: sum.splits)

text \<open>
  C4, at concrete inputs: on a heap whose \<open>DefaultConfig\<close> object has its
  initial contents both calls return a transfer, made with \<open>DefaultConfig\<close> and
  the scheme "https".
\<close>

theorem nil_Config_is_DefaultConfig_witness:
  "GetReader parse_scheme bucket_user ''a/b.txt'' None heap_user
     = GetReader parse_scheme bucket_user ''a/b.txt'' DefaultConfig heap_user
   \<and> PutWriter parse_scheme bucket_user ''a/b.txt'' header_user None heap_user
     = PutWriter parse_scheme bucket_user ''a/b.txt'' header_user DefaultConfig heap_user
   \<and> fst (GetReader parse_scheme bucket_user ''a/b.txt'' None heap_user)
     = Inr (Getter (''https'', ''//logs.s3.amazonaws.com/a/b.txt'') DefaultConfig bucket_user)
   \<and> fst (PutWriter parse_scheme bucket_user ''a/b.txt'' header_user None heap_user)
     = Inr (Putter (''https'', ''//logs.s3.amazonaws.com/a/b.txt'') header_user DefaultConfig bucket_user)"
proof -
  have "GetReader parse_scheme bucket_user ''a/b.txt'' None heap_user
          = GetReader parse_scheme bucket_user ''a/b.txt'' DefaultConfig heap_user
        \<and> PutWriter parse_scheme bucket_user ''a/b.txt'' header_user None heap_user
          = PutWriter parse_scheme bucket_user ''a/b.txt'' header_user DefaultConfig heap_user"
    using nil_Config_is_DefaultConfig [of parse_scheme bucket_user "''a/b.txt''" heap_user header_user]
    by blast
  then show ?thesis
    by (metis GetReader_user_nil PutWriter_user_nil fst_conv)
qed

text \<open>
  C6: \<open>s3.Bucket(n)\<close> returns a bucket whose \<open>Name\<close> is \<open>n\<close> and whose account
  reference is the pointer \<open>s3\<close> itself, so that reading the account through the
  bucket reads the object \<open>s3\<close> points to; the call leaves the heap, and with it
  the \<open>S3\<close> object, unchanged.
\<close>

theorem S3_Bucket_name_and_account:
  "S3 (fst (S3_Bucket s3 n h)) = s3
   \<and> Name (fst (S3_Bucket s3 n h)) = n
   \<and> snd (S3_Bucket s3 n h) = h
   \<and> (load_S3 (S3 (fst (S3_Bucket s3 n h))) (snd (S3_Bucket s3 n h)) :: 'e panic + S3) = load_S3 s3 h"
  by (simp add: S3_Bucket_def)

text \<open>
  C7: \<open>PutWriter(path, h, c)\<close> returns a writer exactly when \<open>Url\<close> returns
  a URL for the effective configuration, and panics as \<open>Url\<close> does otherwise. The
  writer is created by \<open>newPutter\<close> with the caller's headers \<open>h\<close> unchanged,
  and the request with which it creates the object goes to that URL and carries
  each header of \<open>h\<close>, with the values \<open>h\<close> gives it.
\<close>

theorem PutWriter_attaches_headers:
  "fst (PutWriter url_Parse b path hdr c h)
     = (case Url url_Parse b path (if c = None then DefaultConfig else c) h of
          Inl p \<Rightarrow> Inl p
        | Inr url \<Rightarrow> Inr (Putter url hdr (if c = None then DefaultConfig else c) b))
   \<and> (\<forall>t. fst (PutWriter url_Parse b path hdr c h) = Inr t \<longrightarrow>
         (\<exists>url req. t = Putter url hdr (if c = None then DefaultConfig else c) b
            \<and> initiate_request t = Some req
            \<and> req_url req = url
            \<and> (\<forall>k vs. hdr k = Some vs \<longrightarrow> req_header req k = Some vs)
            \<and> (\<forall>k. hdr k = None \<longrightarrow> req_header req k = None)))"
proof (intro conjI allI impI)
  show "fst (PutWriter url_Parse b path hdr c h)
     = (case Url url_Parse b path (if c = None then DefaultConfig else c) h of
          Inl p \<Rightarrow> Inl p
        | Inr url \<Rightarrow> Inr (Putter url hdr (if c = None then DefaultConfig else c) b))"
    by (rule PutWriter_result)
next
  fix t
  assume a: "fst (PutWriter url_Parse b path hdr c h) = Inr t"
  let ?c = "if c = None then DefaultConfig else c"
  show "\<exists>url req. t = Putter url hdr ?c b
            \<and> initiate_request t = Some req
            \<and> req_url req = url
            \<and> (\<forall>k vs. hdr k = Some vs \<longrightarrow> req_header req k = Some vs)
            \<and> (\<forall>k. hdr k = None \<longrightarrow> req_header req k = None)"
  proof (cases "Url url_Parse b path ?c h")
    case (Inl p)
    with a show ?thesis
      by (simp add: PutWriter_result)
  next
    case (Inr url)
    with a have t: "t = Putter url hdr ?c b"
      by (simp add: PutWriter_result)
    have "initiate_request t = Some \<lparr>req_url = url, req_header = add_headers hdr Map.empty\<rparr>"
      by (simp add: t initiate_request_def)
    moreover have "\<forall>k vs. hdr k = Some vs \<longrightarrow> add_headers hdr Map.empty k = Some vs"
      by (simp add: add_headers_def Header_Add_def)
    moreover have "\<forall>k. hdr k = None \<longrightarrow> add_headers hdr Map.empty k = None"
      by (simp add: add_headers_def)
    ultimately show ?thesis
      using t by simp
  qed
qed

text \<open>
  C7, at concrete inputs: a call with a server-side encryption header returns a
  writer, and the request with which the writer creates the object carries this
  header and no other.
\<close>

theorem PutWriter_attaches_headers_witness:
  "fst (PutWriter parse_scheme bucket_user ''a/b.txt'' header_user (Some 1) heap_user)
     = Inr (Putter (''http'', ''//logs.s3.amazonaws.com/a/b.txt'') header_user (Some 1) bucket_user)
   \<and> (\<exists>req. initiate_request
               (Putter (''http'', ''//logs.s3.amazonaws.com/a/b.txt'') header_user (Some 1) bucket_user)
             = Some req
          \<and> req_url req = (''http'', ''//logs.s3.amazonaws.com/a/b.txt'')
          \<and> req_header req ''x-amz-server-side-encryption'' = Some [''AES256'']
          \<and> req_header req ''x-amz-meta-owner'' = None)"
proof -
  let ?t = "Putter (''http'', ''//logs.s3.amazonaws.com/a/b.txt'') header_user (Some 1) bucket_user"
  have w: "fst (PutWriter parse_scheme bucket_user ''a/b.txt'' header_user (Some 1) heap_user) = Inr ?t"
    unfolding PutWriter_user_1 by simp
  have e: "header_user ''x-amz-server-side-encryption'' = Some [''AES256'']"
    and n: "header_user ''x-amz-meta-owner'' = None"
    by (simp_all add: header_user_def)
  from PutWriter_attaches_headers [of parse_scheme bucket_user "''a/b.txt''" header_user "Some 1" heap_user,
      THEN conjunct2, rule_format, OF w]
  show ?thesis
  proof (elim exE conjE)
    fix url req
    assume t: "?t = Putter url header_user (if Some 1 = None then DefaultConfig else Some 1) bucket_user"
      and i: "initiate_request ?t = Some req"
      and u: "req_url req = url"
      and a: "\<forall>k vs. header_user k = Some vs \<longrightarrow> req_header req k = Some vs"
      and z: "\<forall>k. header_user k = None \<longrightarrow> req_header req k = None"
    from t u have "req_url req = (''http'', ''//logs.s3.amazonaws.com/a/b.txt'')"
      by simp
    moreover have "req_header req ''x-amz-server-side-encryption'' = Some [''AES256'']"
      by (rule a [rule_format, OF e])
    moreover have "req_header req ''x-amz-meta-owner'' = None"
      by (rule z [rule_format, OF n])
    ultimately show ?thesis
      using w i by (intro conjI exI [of _ req])
  qed
qed

text \<open>
  C8, as stated: \<open>New("", k)\<close> returns an account whose \<open>Domain\<close> is
  "s3.amazonaws.com". This fails when a client has assigned the package variable
  \<open>DefaultDomain\<close>: \<open>New\<close> reads the variable at the call and returns an
  account with the assigned domain.
\<close>

theorem New_reads_assigned_DefaultDomain_counterexample:
  "(load_S3 (fst (New [] user_Keys heap_other)) (snd (New [] user_Keys heap_other))
      :: url_error panic + S3)
     = Inr \<lparr>Domain = ''other.example'', Keys = user_Keys\<rparr>
   \<and> ''other.example'' \<noteq> ''s3.amazonaws.com''"
  by (simp add: New_def load_S3_def heap_other_def heap_init_def Let_def)

text \<open>
  C8, amended: \<open>New(d, k)\<close> returns a pointer to a new \<open>S3\<close> object whose
  \<open>Keys\<close> are \<open>k\<close> and whose \<open>Domain\<close> is \<open>d\<close> when \<open>d\<close> is not empty, and
  the value of the package variable \<open>DefaultDomain\<close> at the call when \<open>d\<close> is
  empty. That value is "s3.amazonaws.com" after package initialisation, and
  \<open>New\<close>, \<open>Bucket\<close>, \<open>GetReader\<close> and \<open>PutWriter\<close> do not assign the
  variable.
\<close>

theorem New_domain_and_keys:
  "(load_S3 (fst (New d k h)) (snd (New d k h)) :: 'e panic + S3)
     = Inr \<lparr>Domain = (if d = [] then DefaultDomain h else d), Keys = k\<rparr>
   \<and> DefaultDomain heap_init = ''s3.amazonaws.com''
   \<and> DefaultDomain (snd (New d k h)) = DefaultDomain h
   \<and> DefaultDomain (snd (S3_Bucket s3 n h)) = DefaultDomain h
   \<and> DefaultDomain (do_calls url_Parse calls h) = DefaultDomain h"
  by (simp add: New_def load_S3_def heap_init_def S3_Bucket_def Let_def do_calls_DefaultDomain)

text \<open>
  C8, at concrete inputs: on the initial heap, and on the heap two calls of the
  entry points leave, \<open>New\<close> with an empty domain returns an account of
  "s3.amazonaws.com"; with the domain "storage.example" it returns an account of
  that domain.
\<close>

theorem New_domain_and_keys_witness:
  "(load_S3 (fst (New [] user_Keys heap_init)) (snd (New [] user_Keys heap_init))
      :: url_error panic + S3)
     = Inr \<lparr>Domain = ''s3.amazonaws.com'', Keys = user_Keys\<rparr>
   \<and> (load_S3 (fst (New ''storage.example'' user_Keys heap_init))
        (snd (New ''storage.example'' user_Keys heap_init)) :: url_error panic + S3)
     = Inr \<lparr>Domain = ''storage.example'', Keys = user_Keys\<rparr>
   \<and> DefaultDomain
        (do_calls parse_scheme
           [Call_GetReader bucket_user ''a/b.txt'' None,
            Call_PutWriter bucket_user ''a/b.txt'' header_user (Some 1)] heap_user)
     = ''s3.amazonaws.com''"
proof -
  let ?calls = "[Call_GetReader bucket_user ''a/b.txt'' None,
            Call_PutWriter bucket_user ''a/b.txt'' header_user (Some 1)]"
  have u: "DefaultDomain heap_user = ''s3.amazonaws.com''"
    by (simp add: heap_user_def)
  note a = New_domain_and_keys [where d = "[]" and k = user_Keys and h = heap_init
      and url_Parse = parse_scheme and calls = "[]" and n = "[]" and ?s3.0 = None]
  note b = New_domain_and_keys [where d = "''storage.example''" and k = user_Keys and h = heap_init
      and url_Parse = parse_scheme and calls = "[]" and n = "[]" and ?s3.0 = None]
  note c = New_domain_and_keys [where d = "[]" and k = user_Keys and h = heap_user
      and url_Parse = parse_scheme and calls = ?calls and n = "[]" and ?s3.0 = None]
  from a [THEN conjunct1] a [THEN conjunct2, THEN conjunct1]
  have 1: "(load_S3 (fst (New [] user_Keys heap_init)) (snd (New [] user_Keys heap_init))
      :: url_error panic + S3) = Inr \<lparr>Domain = ''s3.amazonaws.com'', Keys = user_Keys\<rparr>"
    by simp
  from b [THEN conjunct1] have 2: "(load_S3 (fst (New ''storage.example'' user_Keys heap_init))
        (snd (New ''storage.example'' user_Keys heap_init)) :: url_error panic + S3)
     = Inr \<lparr>Domain = ''storage.example'', Keys = user_Keys\<rparr>"
    by simp
  from c have "DefaultDomain (do_calls parse_scheme ?calls heap_user) = DefaultDomain heap_user"
    by (elim conjE)
  then have 3: "DefaultDomain (do_calls parse_scheme ?calls heap_user) = ''s3.amazonaws.com''"
    using u by (rule trans)
  from 1 2 3 show ?thesis
    by (intro conjI)
qed

text \<open>
  C9: \<open>Bucket.Url\<close> has no error result. For a bucket with an account and a
  non-nil configuration it returns the parsed URL whenever \<open>url.Parse\<close> accepts
  the string \<open>scheme://name.domain/path\<close>, and panics with the parse error
  whenever \<open>url.Parse\<close> rejects it; then \<open>GetReader\<close> and \<open>PutWriter\<close> with
  that configuration panic with the same error.
\<close>

theorem Url_parses_or_panics:
  assumes "load_Config c h = (Inr cfg :: 'e panic + Config)"
    and "load_S3 (S3 b) h = (Inr s3 :: 'e panic + S3)"
  shows "(\<forall>url. url_Parse (Scheme cfg @ ''://'' @ Name b @ ''.'' @ Domain s3 @ ''/'' @ path) = Inr url
            \<longrightarrow> Url url_Parse b path c h = Inr url)
         \<and> (\<forall>err. url_Parse (Scheme cfg @ ''://'' @ Name b @ ''.'' @ Domain s3 @ ''/'' @ path) = Inl err
            \<longrightarrow> Url url_Parse b path c h = Inl (PanicError err)
              \<and> fst (GetReader url_Parse b path c h) = Inl (PanicError err)
              \<and> fst (PutWriter url_Parse b path hdr c h) = Inl (PanicError err))"
proof -
  from assms(1) obtain a where a: "c = Some a" "a < length (configs h)" "cfg = configs h ! a"
    by (auto simp add: load_Config_def split: option.splits if_splits)
  from assms(2) obtain s where s: "S3 b = Some s" "s < length (accounts h)" "s3 = accounts h ! s"
    by (auto simp add: load_S3_def split: option.splits if_splits)
  show ?thesis
    by (simp add: a s GetReader_def PutWriter_def Url_def load_Config_def load_S3_def store_Client_def
        Let_def)
qed

text \<open>
  C9, at concrete inputs: with a configuration whose \<open>Scheme\<close> is empty the
  string starts with a colon, the scheme scan of \<open>url.Parse\<close> reports a missing
  protocol scheme, and \<open>Url\<close>, \<open>GetReader\<close> and \<open>PutWriter\<close> panic; with the
  scheme "http" \<open>Url\<close> returns the parsed URL.
\<close>

theorem Url_parses_or_panics_witness:
  "(load_Config (Some 2) heap_user :: url_error panic + Config) = Inr noscheme_Config
   \<and> Scheme noscheme_Config = []
   \<and> (load_S3 (S3 bucket_user) heap_user :: url_error panic + S3)
       = Inr \<lparr>Domain = ''s3.amazonaws.com'', Keys = user_Keys\<rparr>
   \<and> parse_scheme (''://logs.s3.amazonaws.com/a/b.txt'') = Inl MissingProtocolScheme
   \<and> Url parse_scheme bucket_user ''a/b.txt'' (Some 2) heap_user = Inl (PanicError MissingProtocolScheme)
   \<and> fst (GetReader parse_scheme bucket_user ''a/b.txt'' (Some 2) heap_user)
       = Inl (PanicError MissingProtocolScheme)
   \<and> fst (PutWriter parse_scheme bucket_user ''a/b.txt'' header_user (Some 2) heap_user)
       = Inl (PanicError MissingProtocolScheme)
   \<and> (load_Config (Some 1) heap_user :: url_error panic + Config) = Inr user_Config
   \<and> parse_scheme (''http://logs.s3.amazonaws.com/a/b.txt'') = Inr (''http'', ''//logs.s3.amazonaws.com/a/b.txt'')
   \<and> Url parse_scheme bucket_user ''a/b.txt'' (Some 1) heap_user
       = Inr (''http'', ''//logs.s3.amazonaws.com/a/b.txt'')"
proof -
  have c2: "(load_Config (Some 2) heap_user :: url_error panic + Config) = Inr noscheme_Config"
    and c1: "(load_Config (Some 1) heap_user :: url_error panic + Config) = Inr user_Config"
    by (simp_all add: load_Config_def heap_user_def)
  have s: "(load_S3 (S3 bucket_user) heap_user :: url_error panic + S3)
             = Inr \<lparr>Domain = ''s3.amazonaws.com'', Keys = user_Keys\<rparr>"
    by (simp add: load_S3_def heap_user_def bucket_user_def)
  have p2: "parse_scheme (''://logs.s3.amazonaws.com/a/b.txt'') = Inl MissingProtocolScheme"
    using parse_scheme_colon [of "''logs.s3.amazonaws.com/a/b.txt''"] by simp
  have p1: "parse_scheme (''http://logs.s3.amazonaws.com/a/b.txt'')
              = Inr (''http'', ''//logs.s3.amazonaws.com/a/b.txt'')"
    using parse_scheme_http [of "''logs.s3.amazonaws.com/a/b.txt''"] by simp
  have e: "Scheme noscheme_Config = []" "Scheme user_Config = ''http''" "Name bucket_user = ''logs''"
    by (simp_all add: noscheme_Config_def user_Config_def bucket_user_def)
  show ?thesis
    using c2 c1 s p2 p1 e
      Url_parses_or_panics [OF c2 s, of parse_scheme "''a/b.txt''" header_user]
      Url_parses_or_panics [OF c1 s, of parse_scheme "''a/b.txt''" header_user]
    by simp
qed

text \<open>
  C10: when the \<open>Client\<close> of the effective configuration (\<open>DefaultConfig\<close> for
  a nil argument) is nil, \<open>GetReader\<close> and \<open>PutWriter\<close> store
  \<open>ClientWithTimeout(clientTimeout)\<close> in it, a client with a timeout of 5
  seconds; a client that is not nil stays as it is. The heap the calls leave is the
  heap the transfer is created in, also when \<open>Url\<close> panics.
\<close>

theorem nil_Client_gets_default_client:
  assumes "load_Config (if c = None then DefaultConfig else c) h = (Inr cfg :: 'e panic + Config)"
  shows "(load_Config (if c = None then DefaultConfig else c) (snd (GetReader url_Parse b path c h))
            :: 'e panic + Config)
           = Inr (cfg\<lparr>Client := Some (case Client cfg of
                                         None \<Rightarrow> ClientWithTimeout clientTimeout
                                       | Some cl \<Rightarrow> cl)\<rparr>)
         \<and> (load_Config (if c = None then DefaultConfig else c) (snd (PutWriter url_Parse b path hdr c h))
            :: 'e panic + Config)
           = Inr (cfg\<lparr>Client := Some (case Client cfg of
                                         None \<Rightarrow> ClientWithTimeout clientTimeout
                                       | Some cl \<Rightarrow> cl)\<rparr>)
         \<and> Timeout (ClientWithTimeout clientTimeout) = 5 * 1000000000"
proof -
  from load_Config_InrD [OF assms] obtain a where
    a: "(if c = None then DefaultConfig else c) = Some a" "a < length (configs h)" "cfg = configs h ! a"
    by blast
  show ?thesis
    by (cases "Client (configs h ! a)")
       (simp_all add: a GetReader_heap PutWriter_heap load_Config_def ClientWithTimeout_def
          clientTimeout_def Second_def)
qed

text \<open>
  C10, at concrete inputs: a nil \<open>Config\<close> on a heap whose \<open>DefaultConfig\<close>
  object has no client yet.
\<close>

theorem nil_Client_gets_default_client_witness:
  "(load_Config (if (None :: addr option) = None then DefaultConfig else None) heap_user
      :: url_error panic + Config) = Inr DefaultConfig_value
   \<and> Client DefaultConfig_value = None
   \<and> (load_Config DefaultConfig (snd (GetReader parse_scheme bucket_user ''a/b.txt'' None heap_user))
      :: url_error panic + Config)
     = Inr (DefaultConfig_value\<lparr>Client := Some \<lparr>Timeout = 5000000000\<rparr>\<rparr>)
   \<and> (load_Config DefaultConfig (snd (PutWriter parse_scheme bucket_user ''a/b.txt'' header_user None heap_user))
      :: url_error panic + Config)
     = Inr (DefaultConfig_value\<lparr>Client := Some \<lparr>Timeout = 5000000000\<rparr>\<rparr>)"
proof -
  have l: "(load_Config (if (None :: addr option) = None then DefaultConfig else None) heap_user
      :: url_error panic + Config) = Inr DefaultConfig_value"
    by (simp add: load_Config_def DefaultConfig_def heap_user_def)
  have n: "Client DefaultConfig_value = None"
    by (simp add: DefaultConfig_value_def)
  show ?thesis
    using l n nil_Client_gets_default_client [OF l, of parse_scheme bucket_user "''a/b.txt''" header_user]
    by (simp add: ClientWithTimeout_def clientTimeout_def Second_def)
qed

section \<open>Properties of the reorder buffer\<close>

lemma map_of_filter_key:
  "map_of (filter (\<lambda>(i, _). i \<noteq> k) xs) = (map_of xs)(k := None)"
  by (induction xs) auto

lemma deliver_ready_reordered:
  assumes "\<forall>j<next_index g. j \<in> B"
    and "B \<subseteq> {..<length parts}"
    and "map_of (buffer g) = (\<lambda>i. if i \<in> B \<and> next_index g \<le> i then Some (parts ! i) else None)"
    and "delivered g = concat (take (next_index g) parts)"
  shows "reordered parts B (deliver_ready g)"
  using assms
proof (induction g rule: deliver_ready.induct)
  case (1 g)
  let ?n = "next_index g"
  show ?case
  proof (cases "?n \<in> B")
    case False
    with "1.prems"(3) have "map_of (buffer g) ?n = None"
      by simp
    then have "deliver_ready g = g"
      by (simp add: deliver_ready.simps [of g])
    moreover have "map_of (buffer g) = (\<lambda>i. if i \<in> B \<and> ?n < i then Some (parts ! i) else None)"
      using "1.prems"(3) False by (auto simp add: fun_eq_iff le_less)
    ultimately show ?thesis
      using "1.prems" False by (simp add: reordered_def)
  next
    case True
    let ?g = "g\<lparr>delivered := delivered g @ parts ! ?n,
                 buffer := filter (\<lambda>(i, _). i \<noteq> ?n) (buffer g),
                 next_index := Suc ?n\<rparr>"
    from True "1.prems"(2) have n: "?n < length parts"
      by auto
    from True "1.prems"(3) have look: "map_of (buffer g) ?n = Some (parts ! ?n)"
      by simp
    then have step: "deliver_ready g = deliver_ready ?g"
      by (simp add: deliver_ready.simps [of g])
    have a: "\<forall>j<next_index ?g. j \<in> B"
      using "1.prems"(1) True by (auto simp add: less_Suc_eq)
    have b: "map_of (buffer ?g) = (\<lambda>i. if i \<in> B \<and> next_index ?g \<le> i then Some (parts ! i) else None)"
      using "1.prems"(3) by (auto simp add: map_of_filter_key fun_eq_iff)
    have c: "delivered ?g = concat (take (next_index ?g) parts)"
      using "1.prems"(4) n by (simp add: take_Suc_conv_app_nth)
    from "1.IH" [OF look a "1.prems"(2) b c] step show ?thesis
      by simp
  qed
qed

lemma arrive_reordered:
  assumes "reordered parts A g" and "i \<notin> A" and "i < length parts"
  shows "reordered parts (insert i A) (arrive i (parts ! i) g)"
proof -
  let ?g = "g\<lparr>buffer := (i, parts ! i) # buffer g\<rparr>"
  from assms(1) have inv:
    "\<forall>j<next_index g. j \<in> A" "next_index g \<notin> A" "A \<subseteq> {..<length parts}"
    "map_of (buffer g) = (\<lambda>i. if i \<in> A \<and> next_index g < i then Some (parts ! i) else None)"
    "delivered g = concat (take (next_index g) parts)"
    by (simp_all add: reordered_def)
  from inv(1) assms(2) have le: "next_index g \<le> i"
    by (meson not_le)
  have a: "\<forall>j<next_index ?g. j \<in> insert i A"
    using inv(1) by simp
  have b: "insert i A \<subseteq> {..<length parts}"
    using inv(3) assms(3) by simp
  have c: "map_of (buffer ?g)
      = (\<lambda>j. if j \<in> insert i A \<and> next_index ?g \<le> j then Some (parts ! j) else None)"
    using inv(2,4) le by (auto simp add: fun_eq_iff)
  have d: "delivered ?g = concat (take (next_index ?g) parts)"
    using inv(5) by simp
  show ?thesis
    unfolding arrive_def by (rule deliver_ready_reordered [OF a b c d])
qed

lemma arrivals_reordered:
  assumes "reordered parts A g" and "distinct order" and "set order \<inter> A = {}"
    and "set order \<subseteq> {..<length parts}"
  shows "reordered parts (A \<union> set order) (arrivals parts order g)"
  using assms
proof (induction order arbitrary: A g)
  case Nil
  then show ?case by simp
next
  case (Cons i order)
  from Cons.prems have i: "i \<notin> A" "i < length parts"
    by auto
  have r: "reordered parts (insert i A) (arrive i (parts ! i) g)"
    by (rule arrive_reordered [OF Cons.prems(1) i])
  have "reordered parts (insert i A \<union> set order) (arrivals parts order (arrive i (parts ! i) g))"
    using Cons.prems by (intro Cons.IH [OF r]) auto
  then show ?case
    by simp
qed

lemma reordered_open: "reordered parts {} getter_open"
  by (simp add: reordered_def getter_open_def fun_eq_iff)

lemma reordered_all:
  assumes "reordered parts {..<length parts} g"
  shows "next_index g = length parts" and "delivered g = concat parts" and "map_of (buffer g) = Map.empty"
proof -
  from assms have inv:
    "\<forall>j<next_index g. j < length parts" "\<not> next_index g < length parts"
    "map_of (buffer g) = (\<lambda>i. if i < length parts \<and> next_index g < i then Some (parts ! i) else None)"
    "delivered g = concat (take (next_index g) parts)"
    by (simp_all add: reordered_def)
  from inv(2) have "length parts \<le> next_index g"
    by simp
  moreover have "next_index g \<le> length parts"
  proof (rule ccontr)
    assume "\<not> next_index g \<le> length parts"
    then have "length parts < next_index g" by simp
    with inv(1) show False by blast
  qed
  ultimately show n: "next_index g = length parts"
    by simp
  from inv(4) n show "delivered g = concat parts"
    by simp
  from inv(3) n show "map_of (buffer g) = Map.empty"
    by (auto simp add: fun_eq_iff)
qed

text \<open>
  C5: when the response of every part arrives exactly once, in whatever order, the
  bytes delivered to the caller are the concatenation of the parts in part-index
  order.
\<close>

theorem download_in_part_order:
  assumes "distinct order" and "set order = {..<length parts}"
  shows "download parts order = concat parts"
proof -
  have "reordered parts ({} \<union> set order) (arrivals parts order getter_open)"
    using assms by (intro arrivals_reordered reordered_open) simp_all
  then have "reordered parts {..<length parts} (arrivals parts order getter_open)"
    using assms(2) by simp
  then show ?thesis
    unfolding download_def by (rule reordered_all(2))
qed

text \<open>
  C5, at concrete inputs: three parts whose responses arrive in the order 2, 0, 1.
\<close>

theorem download_in_part_order_witness:
  "distinct [2, 0, 1 :: nat] \<and> set [2, 0, 1 :: nat] = {..<length [''ab'', ''cd'', ''e'']}
   \<and> download [''ab'', ''cd'', ''e''] [2, 0, 1] = concat [''ab'', ''cd'', ''e'']
   \<and> download [''ab'', ''cd'', ''e''] [2, 0, 1] = ''abcde''"
proof -
  have d: "distinct [2, 0, 1 :: nat]"
    by simp
  have s: "set [2, 0, 1 :: nat] = {..<length [''ab'', ''cd'', ''e'']}"
    by auto
  show ?thesis
    using d s download_in_part_order [OF d s] by simp
qed

end
